theory Spec2Isabelle
  imports Main "HOL-Library.Sublist" "HOL-Library.Multiset"
begin

section \<open>Data model of \<open>src/modules/openpgpjs.js\<close>\<close>

text \<open>
  The module orchestrates four OpenPGP operations over three injected collaborators: a
  keyring, an unlock callback and the \<open>openpgp\<close> engine. The collaborators are
  parameters of the model (records of functions); a call that throws, or a promise that
  rejects, is the \<open>Inl\<close> branch of a sum.
\<close>

type_synonym timestamp = nat

datatype error =
    NoKeyFound
  | UserCancelled
  | WrongPassphrase
  | DecryptionFailed
  | MalformedMessage
  | MalformedSignature
  | FingerprintLookupFailed
  | OtherError string

datatype key = Key string

datatype message = Message string

datatype payload = Text string | Bytes "nat list"

text \<open>
  The \<open>valid\<close> field of a mapped signature is \<open>true\<close>, \<open>false\<close> or \<open>null\<close> in the
  source: \<open>Valid\<close>, \<open>Invalid\<close> and \<open>Unknown\<close> here.
\<close>

datatype trust = Valid | Invalid | Unknown

text \<open>
  A raw signature as the engine returns it. \<open>keyID\<close> is the string that
  \<open>signature.keyID.toHex()\<close> gives. \<open>signature.verified\<close> is the engine's verification
  handle: a promise that fulfils with \<open>true\<close> or rejects with an \<open>Error\<close> carrying a
  message. \<open>signature.signature\<close> is a promise of the signature object; of its packets
  only \<open>created\<close> is read, so a packet list is the list of the packets' optional
  creation times.
\<close>

datatype verified_handle = VerifiedTrue | VerifiedError string

datatype signature_handle = SignatureResolved "timestamp option list" | SignatureError string

record raw_signature =
  keyID :: string
  verified :: verified_handle
  signature :: signature_handle

record signature_record =
  keyId :: string
  valid :: trust
  created :: "timestamp option"
  fingerprint :: "string option"

record 's result =
  data :: payload
  signatures :: "'s list"

text \<open>
  \<open>getPrivateKeyByIds\<close> is called with an array of key ids by \<open>decrypt\<close> and with one
  fingerprint string by \<open>encrypt\<close> and \<open>sign\<close>.
\<close>

datatype key_ids = IdList "string list" | IdString string

record keyring =
  getPrivateKeyByIds :: "key_ids \<Rightarrow> error + key"
  getKeyByAddress :: "string list \<Rightarrow> error + (string \<rightharpoonup> key list)"
  getKeysByFprs :: "string list \<Rightarrow> error + key list"
  getFprForKeyId :: "string \<Rightarrow> error + string"
  getKeysForId :: "string \<Rightarrow> bool \<Rightarrow> key list option"

section \<open>mapSignatures\<close>

text \<open>
  The test \<open>/^Could not find signing key with key ID/.test(e.message)\<close>: the message
  starts with that text.
\<close>

definition no_signing_key_message :: "string \<Rightarrow> bool" where
  "no_signing_key_message msg = prefix ''Could not find signing key with key ID'' msg"

text \<open>The first \<open>try\<close>/\<open>catch\<close>: \<open>sig.valid = await signature.verified\<close>.\<close>

definition classify :: "verified_handle \<Rightarrow> trust" where
  "classify h =
     (case h of
        VerifiedTrue \<Rightarrow> Valid
      | VerifiedError msg \<Rightarrow> if no_signing_key_message msg then Unknown else Invalid)"

text \<open>
  The second \<open>try\<close>/\<open>catch\<close>: \<open>(await signature.signature).packets[0]?.created\<close>; a
  rejection is swallowed and an empty packet list gives \<open>undefined\<close>.
\<close>

definition created_of :: "signature_handle \<Rightarrow> timestamp option" where
  "created_of h =
     (case h of
        SignatureResolved packets \<Rightarrow> (case packets of [] \<Rightarrow> None | p # _ \<Rightarrow> p)
      | SignatureError msg \<Rightarrow> None)"

text \<open>
  The body of the arrow function given to \<open>signatures.map\<close>: the record is built field
  by field, and a failed fingerprint lookup overwrites \<open>valid\<close> with \<open>false\<close>.
\<close>

definition mapSignature :: "keyring \<Rightarrow> raw_signature \<Rightarrow> signature_record" where
  "mapSignature kr s =
     (let sig = \<lparr>keyId = keyID s, valid = classify (verified s),
                 created = created_of (signature s), fingerprint = None\<rparr>
      in if valid sig \<noteq> Unknown then
           (case getFprForKeyId kr (keyId sig) of
              Inr fpr \<Rightarrow> sig\<lparr>fingerprint := Some fpr\<rparr>
            | Inl e \<Rightarrow> sig\<lparr>valid := Invalid\<rparr>)
         else sig)"

text \<open>
  \<open>Promise.all(signatures.map(async signature => ...))\<close>. No task rejects, so the
  promise fulfils with the tasks' records in input order.
\<close>

definition mapSignatures :: "raw_signature list \<Rightarrow> keyring \<Rightarrow> signature_record list" where
  "mapSignatures sigs kr = map (mapSignature kr) sigs"

text \<open>
  \<open>Promise.all\<close> with the order of completion made explicit. Each input promise has
  an index; when the promise with index \<open>i\<close> settles, its value is stored in slot \<open>i\<close>
  of the values array, and the combined promise fulfils once every slot is filled.
  \<open>order\<close> lists the indices in the order in which the tasks complete; an index out of
  range belongs to no task and is skipped. A slot still empty at the end means that the
  combined promise stays pending: \<open>None\<close>.
\<close>

fun settle :: "'a list \<Rightarrow> 'a option list \<Rightarrow> nat list \<Rightarrow> 'a option list" where
  "settle tasks slots [] = slots"
| "settle tasks slots (i # order) =
     settle tasks (if i < length tasks then slots[i := Some (tasks ! i)] else slots) order"

fun collect_slots :: "'a option list \<Rightarrow> 'a list option" where
  "collect_slots [] = Some []"
| "collect_slots (None # slots) = None"
| "collect_slots (Some v # slots) =
     (case collect_slots slots of None \<Rightarrow> None | Some vs \<Rightarrow> Some (v # vs))"

definition Promise_all :: "nat list \<Rightarrow> 'a list \<Rightarrow> 'a list option" where
  "Promise_all order tasks = collect_slots (settle tasks (replicate (length tasks) None) order)"

definition mapSignatures_async ::
  "nat list \<Rightarrow> raw_signature list \<Rightarrow> keyring \<Rightarrow> signature_record list option" where
  "mapSignatures_async order sigs kr = Promise_all order (map (mapSignature kr) sigs)"

section \<open>Collaborators and the trace of their calls\<close>

datatype signature_object = SignatureObject string

text \<open>
  The \<open>openpgp\<close> functions the module imports. \<open>verificationKeys\<close> of \<open>pgpDecrypt\<close>
  and \<open>signingKeys\<close> of \<open>pgpEncrypt\<close> may be \<open>undefined\<close> (\<open>None\<close>); an element of
  \<open>verificationKeys\<close> of \<open>pgpVerify\<close> may be \<open>undefined\<close> (see \<open>verify\<close>).
\<close>

record engine =
  pgpDecrypt :: "message \<Rightarrow> key \<Rightarrow> key list option \<Rightarrow> string option \<Rightarrow> error + raw_signature result"
  createMessage :: "payload \<Rightarrow> string option \<Rightarrow> error + message"
  pgpEncrypt :: "message option \<Rightarrow> key list \<Rightarrow> key option \<Rightarrow> string \<Rightarrow> error + payload"
  createCleartextMessage :: "string \<Rightarrow> error + message"
  pgpSign :: "message \<Rightarrow> key list \<Rightarrow> error + string"
  readSignature :: "string \<Rightarrow> error + signature_object"
  pgpVerify :: "message option \<Rightarrow> key option list \<Rightarrow> signature_object option \<Rightarrow> error + raw_signature result"

text \<open>
  The conversions imported from \<open>../lib/util\<close>, whose source is not part of the module:
  parameters of the model.
\<close>

record util =
  Uint8Array2str :: "payload \<Rightarrow> string"
  dataURL2str :: "string \<Rightarrow> error + string"
  str2Uint8Array :: "string \<Rightarrow> nat list"

text \<open>
  A call of the keyring's key resolution, of the unlock callback or of the engine, with
  its arguments. Each of the four operations returns the calls it made, in order,
  together with its outcome. The fingerprint lookups of \<open>mapSignatures\<close> are reads of the
  keyring and are not recorded.
\<close>

datatype event =
    GetPrivateKeyByIds key_ids
  | UnlockKey key
  | GetKeyByAddress "string list"
  | GetKeysByFprs "string list"
  | GetKeysForId string bool
  | PgpDecrypt message key "key list option" "string option"
  | CreateMessage payload "string option"
  | PgpEncrypt "message option" "key list" "key option" string
  | CreateCleartextMessage string
  | PgpSign message "key list"
  | ReadSignature string
  | PgpVerify "message option" "key option list" "signature_object option"

type_synonym 'a io = "event list \<times> (error + 'a)"

definition ret :: "'a \<Rightarrow> 'a io" where
  "ret x = ([], Inr x)"

definition call :: "event \<Rightarrow> error + 'a \<Rightarrow> 'a io" where
  "call ev outcome = ([ev], outcome)"

text \<open>
  Sequencing: a throw or a rejected \<open>await\<close> ends the operation with that error, and
  nothing after it runs.
\<close>

definition andThen :: "'a io \<Rightarrow> ('a \<Rightarrow> 'b io) \<Rightarrow> 'b io" where
  "andThen m f =
     (case m of
        (t, Inl e) \<Rightarrow> (t, Inl e)
      | (t, Inr x) \<Rightarrow> (case f x of (t', r) \<Rightarrow> (t @ t', r)))"

text \<open>The engine's own decrypt, encrypt and sign calls.\<close>

fun is_crypto_call :: "event \<Rightarrow> bool" where
  "is_crypto_call (PgpDecrypt m k vks fmt) = True"
| "is_crypto_call (PgpEncrypt m ks sk fmt) = True"
| "is_crypto_call (PgpSign m ks) = True"
| "is_crypto_call ev = False"

fun is_address_lookup :: "event \<Rightarrow> bool" where
  "is_address_lookup (GetKeyByAddress addrs) = True"
| "is_address_lookup ev = False"

text \<open>JavaScript truthiness of an optional string: defined and not empty.\<close>

definition truthy :: "string option \<Rightarrow> bool" where
  "truthy v = (case v of None \<Rightarrow> False | Some s \<Rightarrow> s \<noteq> [])"

section \<open>decrypt\<close>

text \<open>\<open>options.senderAddress\<close>: absent, one address, or an array of addresses.\<close>

datatype sender_address = NoAddress | Address string | Addresses "string list"

text \<open>
  Modelled from the spec: \<open>toArray\<close> is imported from \<open>../lib/util\<close>, whose source is
  missing. The spec has the sender address normalised to a list that may be empty, and
  the addresses deduplicated into a normalised list before the lookup. The spec does not
  say which of two equal addresses is kept; the first is kept here, so that the order of
  the addresses is the order of their first occurrences.
\<close>

fun dedup :: "string list \<Rightarrow> string list" where
  "dedup [] = []"
| "dedup (a # as) = a # dedup (filter (\<lambda>b. b \<noteq> a) as)"

fun toArray :: "sender_address \<Rightarrow> string list" where
  "toArray NoAddress = []"
| "toArray (Address a) = [a]"
| "toArray (Addresses as) = dedup as"

text \<open>
  \<open>senderAddress.reduce((result, email) => result.concat(signingKeys[email] || []), [])\<close>:
  an address that the returned object does not map to an array adds nothing.
\<close>

definition flattenKeys :: "(string \<rightharpoonup> key list) \<Rightarrow> string list \<Rightarrow> key list" where
  "flattenKeys signingKeys senderAddress =
     foldl (\<lambda>result email. result @ (case signingKeys email of None \<Rightarrow> [] | Some ks \<Rightarrow> ks))
       [] senderAddress"

text \<open>
  Lines 26 to 42: the verification keys handed to the engine. \<open>None\<close> is the
  \<open>signingKeys\<close> variable left \<open>undefined\<close>.
\<close>

definition signingKeysFor ::
  "keyring \<Rightarrow> string list \<Rightarrow> bool \<Rightarrow> key \<Rightarrow> key list option io" where
  "signingKeysFor kr senderAddress selfSigned privateKey =
     (if senderAddress \<noteq> [] \<or> selfSigned then
        andThen
          (if senderAddress \<noteq> [] then
             andThen (call (GetKeyByAddress senderAddress) (getKeyByAddress kr senderAddress))
               (\<lambda>signingKeys. ret (flattenKeys signingKeys senderAddress))
           else ret [])
          (\<lambda>signingKeys. ret (Some (if signingKeys = [] then [privateKey] else signingKeys)))
      else ret None)"

definition decrypt ::
  "util \<Rightarrow> engine \<Rightarrow> message \<Rightarrow> keyring \<Rightarrow> sender_address \<Rightarrow> bool \<Rightarrow> string list \<Rightarrow>
   (key \<Rightarrow> error + key) \<Rightarrow> string option \<Rightarrow> signature_record result io" where
  "decrypt U E msg kr senderAddress selfSigned encryptionKeyIds unlockKey format =
     andThen (call (GetPrivateKeyByIds (IdList encryptionKeyIds))
                (getPrivateKeyByIds kr (IdList encryptionKeyIds)))
       (\<lambda>lockedKey.
     andThen (call (UnlockKey lockedKey) (unlockKey lockedKey))
       (\<lambda>privateKey.
     andThen (signingKeysFor kr (toArray senderAddress) selfSigned privateKey)
       (\<lambda>signingKeys.
     andThen (call (PgpDecrypt msg privateKey signingKeys format)
                (pgpDecrypt E msg privateKey signingKeys format))
       (\<lambda>res.
          ret \<lparr>data = (if format = Some ''binary'' then Text (Uint8Array2str U (data res))
                       else data res),
               signatures = mapSignatures (signatures res) kr\<rparr>))))"

section \<open>encrypt\<close>

text \<open>
  Lines 90 to 96: the message is built from \<open>data\<close> when it is truthy, else from
  \<open>dataURL\<close> when that is truthy, and is left \<open>undefined\<close> otherwise.
\<close>

definition buildMessage ::
  "util \<Rightarrow> engine \<Rightarrow> string option \<Rightarrow> string option \<Rightarrow> string option \<Rightarrow> message option io" where
  "buildMessage U E dat dataURL filename =
     (if truthy dat then
        andThen (call (CreateMessage (Text (the dat)) filename)
                   (createMessage E (Text (the dat)) filename))
          (\<lambda>m. ret (Some m))
      else if truthy dataURL then
        andThen ([], dataURL2str U (the dataURL))
          (\<lambda>content.
        andThen (call (CreateMessage (Bytes (str2Uint8Array U content)) filename)
                   (createMessage E (Bytes (str2Uint8Array U content)) filename))
          (\<lambda>m. ret (Some m)))
      else ret None)"

text \<open>
  Lines 97 to 100: the signing key is resolved and unlocked only when \<open>signingKeyFpr\<close>
  is truthy, and is left \<open>undefined\<close> otherwise.
\<close>

definition unlockSigningKey ::
  "keyring \<Rightarrow> (key \<Rightarrow> error + key) \<Rightarrow> string option \<Rightarrow> key option io" where
  "unlockSigningKey kr unlockKey signingKeyFpr =
     (if truthy signingKeyFpr then
        andThen (call (GetPrivateKeyByIds (IdString (the signingKeyFpr)))
                   (getPrivateKeyByIds kr (IdString (the signingKeyFpr))))
          (\<lambda>lockedKey.
        andThen (call (UnlockKey lockedKey) (unlockKey lockedKey))
          (\<lambda>signingKey. ret (Some signingKey)))
      else ret None)"

definition encrypt ::
  "util \<Rightarrow> engine \<Rightarrow> string option \<Rightarrow> string option \<Rightarrow> keyring \<Rightarrow> (key \<Rightarrow> error + key) \<Rightarrow>
   string list \<Rightarrow> string option \<Rightarrow> string option \<Rightarrow> bool \<Rightarrow> payload io" where
  "encrypt U E dat dataURL kr unlockKey encryptionKeyFprs signingKeyFpr filename armor =
     andThen (buildMessage U E dat dataURL filename)
       (\<lambda>msg.
     andThen (unlockSigningKey kr unlockKey signingKeyFpr)
       (\<lambda>signingKey.
     andThen (call (GetKeysByFprs encryptionKeyFprs) (getKeysByFprs kr encryptionKeyFprs))
       (\<lambda>keys.
     andThen (call (PgpEncrypt msg keys signingKey (if armor then ''armored'' else ''binary''))
                (pgpEncrypt E msg keys signingKey (if armor then ''armored'' else ''binary'')))
       (\<lambda>res. ret (if armor then res else Text (Uint8Array2str U res))))))"

section \<open>sign\<close>

definition sign ::
  "engine \<Rightarrow> string \<Rightarrow> keyring \<Rightarrow> (key \<Rightarrow> error + key) \<Rightarrow> string \<Rightarrow> string io" where
  "sign E dat kr unlockKey signingKeyFpr =
     andThen (call (CreateCleartextMessage dat) (createCleartextMessage E dat))
       (\<lambda>msg.
     andThen (call (GetPrivateKeyByIds (IdString signingKeyFpr))
                (getPrivateKeyByIds kr (IdString signingKeyFpr)))
       (\<lambda>lockedKey.
     andThen (call (UnlockKey lockedKey) (unlockKey lockedKey))
       (\<lambda>signingKey.
     call (PgpSign msg [signingKey]) (pgpSign E msg [signingKey]))))"

section \<open>verify\<close>

text \<open>
  An element of \<open>signingKeyIds\<close> is a string or a \<open>KeyID\<close> object; the argument of
  \<open>KeyIDObject\<close> is what the object's \<open>toHex()\<close> returns.
\<close>

datatype signing_key_id = IdText string | KeyIDObject string

fun lookup_id :: "signing_key_id \<Rightarrow> string" where
  "lookup_id (IdText s) = s"
| "lookup_id (KeyIDObject h) = h"

text \<open>
  The \<open>for\<close> loop of lines 133 to 139, with \<open>signingKeys\<close> as the accumulator.
  \<open>if (keys)\<close> holds for every array, the empty one too, and \<open>keys[0]\<close> of an empty
  array is \<open>undefined\<close>: \<open>None\<close>.
\<close>

fun pushFirstKeys :: "keyring \<Rightarrow> signing_key_id list \<Rightarrow> key option list \<Rightarrow> key option list" where
  "pushFirstKeys kr [] signingKeys = signingKeys"
| "pushFirstKeys kr (kid # rest) signingKeys =
     pushFirstKeys kr rest
       (case getKeysForId kr (lookup_id kid) True of
          None \<Rightarrow> signingKeys
        | Some keys \<Rightarrow> signingKeys @ [case keys of [] \<Rightarrow> None | k # _ \<Rightarrow> Some k])"

definition resolveSigningKeys :: "keyring \<Rightarrow> signing_key_id list \<Rightarrow> key option list io" where
  "resolveSigningKeys kr signingKeyIds =
     (map (\<lambda>kid. GetKeysForId (lookup_id kid) True) signingKeyIds,
      Inr (pushFirstKeys kr signingKeyIds []))"

definition verify ::
  "engine \<Rightarrow> message option \<Rightarrow> string option \<Rightarrow> string option \<Rightarrow> keyring \<Rightarrow>
   signing_key_id list \<Rightarrow> signature_record result io" where
  "verify E msg plaintext detachedSignature kr signingKeyIds =
     andThen (resolveSigningKeys kr signingKeyIds)
       (\<lambda>signingKeys.
     andThen
       (if truthy plaintext \<and> truthy detachedSignature then
          andThen (call (ReadSignature (the detachedSignature))
                     (readSignature E (the detachedSignature)))
            (\<lambda>sg.
          andThen (call (CreateMessage (Text (the plaintext)) None)
                     (createMessage E (Text (the plaintext)) None))
            (\<lambda>m. ret (Some m, Some sg)))
        else ret (msg, None))
       (\<lambda>(msg', sg).
     andThen (call (PgpVerify msg' signingKeys sg) (pgpVerify E msg' signingKeys sg))
       (\<lambda>res. ret \<lparr>data = data res, signatures = mapSignatures (signatures res) kr\<rparr>)))"

section \<open>Concrete collaborators\<close>

text \<open>
  A small keyring, unlock callbacks and an engine on which the theorems below are
  instantiated. The keyring knows one private key and the two public keys of
  \<open>bob@example.org\<close>, and maps the key id \<open>b0b0\<close> to a fingerprint. The engine reports
  one signature by \<open>b0b0\<close> on every message; like \<open>openpgp\<close> it rejects the signature's
  verification handle with \<open>Could not find signing key with key ID ...\<close> when the
  verification keys do not hold the signer's key.
\<close>

definition demo_util :: util where
  "demo_util =
     \<lparr>Uint8Array2str = (\<lambda>p. case p of Text s \<Rightarrow> s | Bytes bs \<Rightarrow> map char_of bs),
      dataURL2str = Inr,
      str2Uint8Array = map of_char\<rparr>"

definition demo_keyring :: keyring where
  "demo_keyring =
     \<lparr>getPrivateKeyByIds = (\<lambda>ids. Inr (Key ''alice-locked'')),
      getKeyByAddress = (\<lambda>addrs. Inr [''bob@example.org'' \<mapsto> [Key ''bob-1'', Key ''bob-2'']]),
      getKeysByFprs = (\<lambda>fprs. Inr (map Key fprs)),
      getFprForKeyId =
        (\<lambda>kid. if kid = ''b0b0'' then Inr ''fingerprint-of-b0b0'' else Inl FingerprintLookupFailed),
      getKeysForId =
        (\<lambda>kid exact. if kid = ''b0b0'' then Some [Key ''bob-1'', Key ''bob-2''] else None)\<rparr>"

definition keyring_without_private_key :: keyring where
  "keyring_without_private_key =
     demo_keyring\<lparr>getPrivateKeyByIds := (\<lambda>ids. Inl NoKeyFound)\<rparr>"

definition keyring_without_fingerprints :: keyring where
  "keyring_without_fingerprints =
     demo_keyring\<lparr>getFprForKeyId := (\<lambda>kid. Inl FingerprintLookupFailed)\<rparr>"

definition demo_unlock :: "key \<Rightarrow> error + key" where
  "demo_unlock k = Inr (Key ''alice-unlocked'')"

definition cancelled_unlock :: "key \<Rightarrow> error + key" where
  "cancelled_unlock k = Inl UserCancelled"

definition signature_by_bob :: "bool \<Rightarrow> raw_signature" where
  "signature_by_bob key_available =
     \<lparr>keyID = ''b0b0'',
      verified = (if key_available then VerifiedTrue
                  else VerifiedError ''Could not find signing key with key ID b0b0''),
      signature = SignatureResolved [Some 1700000000]\<rparr>"

definition tampered_signature :: raw_signature where
  "tampered_signature =
     \<lparr>keyID = ''b0b0'',
      verified = VerifiedError ''Signed digest did not match'',
      signature = SignatureError ''Malformed packet''\<rparr>"

definition demo_engine :: engine where
  "demo_engine =
     \<lparr>pgpDecrypt = (\<lambda>m k vks fmt.
        Inr \<lparr>data = Text ''hello'',
             signatures = [signature_by_bob
                             (case vks of None \<Rightarrow> False | Some ks \<Rightarrow> Key ''bob-1'' \<in> set ks)]\<rparr>),
      createMessage = (\<lambda>p filename. Inr (Message ''literal'')),
      pgpEncrypt = (\<lambda>m ks sk fmt.
        Inr (if fmt = ''armored'' then Text ''-----BEGIN PGP MESSAGE-----'' else Bytes [193, 192])),
      createCleartextMessage = (\<lambda>d. Inr (Message d)),
      pgpSign = (\<lambda>m ks. Inr ''-----BEGIN PGP SIGNED MESSAGE-----''),
      readSignature = (\<lambda>armored. Inr (SignatureObject armored)),
      pgpVerify = (\<lambda>m vks sg.
        Inr \<lparr>data = Text ''hello'',
             signatures = [signature_by_bob (Some (Key ''bob-1'') \<in> set vks)]\<rparr>)\<rparr>"

definition demo_message :: message where
  "demo_message = Message ''encrypted-and-signed''"

section \<open>Sequencing and traces\<close>

lemma fst_andThen:
  "fst (andThen m f) = (case snd m of Inl e \<Rightarrow> fst m | Inr x \<Rightarrow> fst m @ fst (f x))"
  by (cases m) (simp add: andThen_def split: sum.splits prod.splits)

lemma snd_andThen:
  "snd (andThen m f) = (case snd m of Inl e \<Rightarrow> Inl e | Inr x \<Rightarrow> snd (f x))"
  by (cases m) (simp add: andThen_def split: sum.splits prod.splits)

lemma fst_call: "fst (call ev r) = [ev]"
  by (simp add: call_def)

lemma snd_call: "snd (call ev r) = r"
  by (simp add: call_def)

lemma fst_ret: "fst (ret x) = []"
  by (simp add: ret_def)

lemma snd_ret: "snd (ret x) = Inr x"
  by (simp add: ret_def)

lemmas io_simps = fst_andThen snd_andThen fst_call snd_call fst_ret snd_ret

text \<open>The definitions of the concrete collaborators, for evaluation.\<close>

lemmas demo_defs = demo_util_def demo_keyring_def keyring_without_private_key_def
  keyring_without_fingerprints_def demo_unlock_def cancelled_unlock_def signature_by_bob_def
  tampered_signature_def demo_engine_def demo_message_def


section \<open>The verification keys of decrypt\<close>

lemma fst_signingKeysFor:
  "fst (signingKeysFor kr addrs selfSigned k) = (if addrs \<noteq> [] then [GetKeyByAddress addrs] else [])"
  by (simp add: signingKeysFor_def io_simps split: sum.splits)

lemma snd_signingKeysFor:
  "snd (signingKeysFor kr addrs selfSigned k) =
     (if addrs \<noteq> [] then
        (case getKeyByAddress kr addrs of
           Inl e \<Rightarrow> Inl e
         | Inr found \<Rightarrow> Inr (Some (if flattenKeys found addrs = [] then [k] else flattenKeys found addrs)))
      else if selfSigned then Inr (Some [k]) else Inr None)"
  by (simp add: signingKeysFor_def io_simps split: sum.splits)



section \<open>What decrypt and verify return\<close>

lemma PgpDecrypt_in_trace:
  assumes "PgpDecrypt m k vks fmt
             \<in> set (fst (decrypt U E msg kr senderAddress selfSigned ids unlockKey format))"
  shows "m = msg \<and> fmt = format \<and>
         (\<exists>locked. getPrivateKeyByIds kr (IdList ids) = Inr locked \<and> unlockKey locked = Inr k) \<and>
         snd (signingKeysFor kr (toArray senderAddress) selfSigned k) = Inr vks"
  using assms
  by (auto simp: decrypt_def io_simps fst_signingKeysFor split: sum.splits if_splits)

lemma snd_decrypt_engine:
  assumes "PgpDecrypt m k vks fmt
             \<in> set (fst (decrypt U E msg kr senderAddress selfSigned ids unlockKey format))"
  shows "snd (decrypt U E msg kr senderAddress selfSigned ids unlockKey format) =
           (case pgpDecrypt E m k vks fmt of
              Inl e \<Rightarrow> Inl e
            | Inr res \<Rightarrow>
                Inr \<lparr>data = (if format = Some ''binary'' then Text (Uint8Array2str U (data res))
                             else data res),
                     signatures = mapSignatures (signatures res) kr\<rparr>)"
proof -
  from PgpDecrypt_in_trace [OF assms] obtain locked where
    "m = msg" "fmt = format" "getPrivateKeyByIds kr (IdList ids) = Inr locked"
    "unlockKey locked = Inr k"
    "snd (signingKeysFor kr (toArray senderAddress) selfSigned k) = Inr vks"
    by blast
  then show ?thesis
    by (simp add: decrypt_def io_simps split: sum.splits)
qed

lemma decrypt_Inr_signatures:
  assumes "snd (decrypt U E msg kr senderAddress selfSigned ids unlockKey format) = Inr r"
  shows "\<exists>k vks res. pgpDecrypt E msg k vks format = Inr res \<and>
           signatures r = mapSignatures (signatures res) kr"
proof -
  from assms obtain k vks res where
    "pgpDecrypt E msg k vks format = Inr res"
    "r = \<lparr>data = (if format = Some ''binary'' then Text (Uint8Array2str U (data res))
                    else data res),
            signatures = mapSignatures (signatures res) kr\<rparr>"
    by (auto simp: decrypt_def io_simps split: sum.splits)
  then show ?thesis by auto
qed

lemma fst_resolveSigningKeys:
  "fst (resolveSigningKeys kr ids) = map (\<lambda>kid. GetKeysForId (lookup_id kid) True) ids"
  by (simp add: resolveSigningKeys_def)

lemma snd_resolveSigningKeys: "snd (resolveSigningKeys kr ids) = Inr (pushFirstKeys kr ids [])"
  by (simp add: resolveSigningKeys_def)

lemma snd_verify_engine:
  assumes "PgpVerify m vks sg \<in> set (fst (verify E msg plaintext detachedSignature kr ids))"
  shows "snd (verify E msg plaintext detachedSignature kr ids) =
           (case pgpVerify E m vks sg of
              Inl e \<Rightarrow> Inl e
            | Inr res \<Rightarrow> Inr \<lparr>data = data res, signatures = mapSignatures (signatures res) kr\<rparr>)"
  using assms
  by (auto simp: verify_def io_simps fst_resolveSigningKeys snd_resolveSigningKeys
           split: sum.splits if_splits prod.splits)

lemma verify_Inr_signatures:
  assumes "snd (verify E msg plaintext detachedSignature kr ids) = Inr r"
  shows "\<exists>m vks sg res. pgpVerify E m vks sg = Inr res \<and>
           signatures r = mapSignatures (signatures res) kr"
proof -
  from assms obtain m vks sg res where
    "pgpVerify E m vks sg = Inr res"
    "r = \<lparr>data = data res, signatures = mapSignatures (signatures res) kr\<rparr>"
    by (auto simp: verify_def io_simps snd_resolveSigningKeys split: sum.splits if_splits)
  then show ?thesis by auto
qed

section \<open>The fields of a mapped signature\<close>

lemma valid_mapSignature:
  "valid (mapSignature kr s) =
     (case classify (verified s) of
        Unknown \<Rightarrow> Unknown
      | Invalid \<Rightarrow> Invalid
      | Valid \<Rightarrow> (case getFprForKeyId kr (keyID s) of Inl e \<Rightarrow> Invalid | Inr fpr \<Rightarrow> Valid))"
  by (simp add: mapSignature_def Let_def split: sum.splits trust.splits)

lemma fingerprint_mapSignature:
  "fingerprint (mapSignature kr s) =
     (if classify (verified s) = Unknown then None
      else (case getFprForKeyId kr (keyID s) of Inl e \<Rightarrow> None | Inr fpr \<Rightarrow> Some fpr))"
  by (simp add: mapSignature_def Let_def split: sum.splits)

text \<open>
  C3. The first \<open>try\<close>/\<open>catch\<close> of the mapping (lines 55 to 59) classifies \<open>valid\<close> as a
  tri-state, for every raw signature: \<open>Unknown\<close> exactly when the verification handle
  rejects with a message that starts with \<open>Could not find signing key with key ID\<close>,
  \<open>Invalid\<close> when it rejects with any other message, and \<open>Valid\<close> when it fulfils.
  The mapped record carries this classification, unless the signature is not \<open>Unknown\<close>
  and the later fingerprint lookup for its key id fails.
\<close>

theorem valid_tri_state:
  "(classify (verified s) = Unknown \<longleftrightarrow>
      (\<exists>msg. verified s = VerifiedError msg \<and> no_signing_key_message msg)) \<and>
   (\<forall>msg. verified s = VerifiedError msg \<and> \<not> no_signing_key_message msg \<longrightarrow>
      classify (verified s) = Invalid) \<and>
   (verified s = VerifiedTrue \<longrightarrow> classify (verified s) = Valid) \<and>
   (\<not> (classify (verified s) \<noteq> Unknown \<and> isl (getFprForKeyId kr (keyID s))) \<longrightarrow>
      valid (mapSignature kr s) = classify (verified s))"
proof -
  have step: "(classify h = Unknown \<longleftrightarrow> (\<exists>msg. h = VerifiedError msg \<and> no_signing_key_message msg)) \<and>
      (\<forall>msg. h = VerifiedError msg \<and> \<not> no_signing_key_message msg \<longrightarrow> classify h = Invalid) \<and>
      (h = VerifiedTrue \<longrightarrow> classify h = Valid)" for h
    by (cases h) (simp_all add: classify_def)
  have carried: "valid (mapSignature kr s) = classify (verified s)"
    if "\<not> (classify (verified s) \<noteq> Unknown \<and> isl (getFprForKeyId kr (keyID s)))"
    using that by (auto simp: valid_mapSignature split: trust.splits sum.splits)
  from step [of "verified s"] carried show ?thesis by blast
qed

theorem valid_tri_state_witness:
  "verified (signature_by_bob False) = VerifiedError ''Could not find signing key with key ID b0b0'' \<and>
   no_signing_key_message ''Could not find signing key with key ID b0b0'' \<and>
   classify (verified (signature_by_bob False)) = Unknown \<and>
   valid (mapSignature demo_keyring (signature_by_bob False)) = Unknown \<and>
   verified tampered_signature = VerifiedError ''Signed digest did not match'' \<and>
   \<not> no_signing_key_message ''Signed digest did not match'' \<and>
   classify (verified tampered_signature) = Invalid \<and>
   valid (mapSignature demo_keyring tampered_signature) = Invalid \<and>
   verified (signature_by_bob True) = VerifiedTrue \<and>
   classify (verified (signature_by_bob True)) = Valid \<and>
   valid (mapSignature demo_keyring (signature_by_bob True)) = Valid"
  using valid_tri_state [of "signature_by_bob False" demo_keyring]
    valid_tri_state [of tampered_signature demo_keyring]
    valid_tri_state [of "signature_by_bob True" demo_keyring]
  by (simp add: demo_defs no_signing_key_message_def)

text \<open>
  C5. In every record that \<open>mapSignatures\<close> produces, and so in every record of the
  \<open>signatures\<close> that \<open>decrypt\<close> and \<open>verify\<close> return, \<open>fingerprint\<close> is set only
  when \<open>valid\<close> is not \<open>Unknown\<close>.
\<close>

theorem fingerprint_only_when_known:
  "(\<forall>r \<in> set (mapSignatures sigs kr). fingerprint r \<noteq> None \<longrightarrow> valid r \<noteq> Unknown) \<and>
   (\<forall>res. snd (decrypt U E msg kr senderAddress selfSigned ids unlockKey format) = Inr res \<longrightarrow>
      (\<forall>r \<in> set (signatures res). fingerprint r \<noteq> None \<longrightarrow> valid r \<noteq> Unknown)) \<and>
   (\<forall>res. snd (verify E' msg' plaintext detachedSignature kr' ids') = Inr res \<longrightarrow>
      (\<forall>r \<in> set (signatures res). fingerprint r \<noteq> None \<longrightarrow> valid r \<noteq> Unknown))"
proof -
  have one: "fingerprint (mapSignature k s) \<noteq> None \<longrightarrow> valid (mapSignature k s) \<noteq> Unknown"
    for k s
    by (simp add: valid_mapSignature fingerprint_mapSignature split: sum.splits trust.splits)
  have all: "\<forall>r \<in> set (mapSignatures ss k). fingerprint r \<noteq> None \<longrightarrow> valid r \<noteq> Unknown"
    for ss k
    using one by (auto simp: mapSignatures_def)
  have d: "\<forall>r \<in> set (signatures res). fingerprint r \<noteq> None \<longrightarrow> valid r \<noteq> Unknown"
    if "snd (decrypt U E msg kr senderAddress selfSigned ids unlockKey format) = Inr res" for res
  proof -
    from decrypt_Inr_signatures [OF that] obtain ss where "signatures res = mapSignatures ss kr"
      by blast
    then show ?thesis using all [of ss kr] by simp
  qed
  have v: "\<forall>r \<in> set (signatures res). fingerprint r \<noteq> None \<longrightarrow> valid r \<noteq> Unknown"
    if "snd (verify E' msg' plaintext detachedSignature kr' ids') = Inr res" for res
  proof -
    from verify_Inr_signatures [OF that] obtain ss where "signatures res = mapSignatures ss kr'"
      by blast
    then show ?thesis using all [of ss kr'] by simp
  qed
  show ?thesis
    using all [of sigs kr] d v by blast
qed

theorem fingerprint_only_when_known_witness:
  "map fingerprint (mapSignatures [signature_by_bob True, signature_by_bob False] demo_keyring) =
     [Some ''fingerprint-of-b0b0'', None] \<and>
   map valid (mapSignatures [signature_by_bob True, signature_by_bob False] demo_keyring) =
     [Valid, Unknown] \<and>
   snd (decrypt demo_util demo_engine demo_message demo_keyring (Address ''bob@example.org'')
          False [''a11ce''] demo_unlock None) =
     Inr \<lparr>data = Text ''hello'',
          signatures = [\<lparr>keyId = ''b0b0'', valid = Valid, created = Some 1700000000,
                         fingerprint = Some ''fingerprint-of-b0b0''\<rparr>]\<rparr> \<and>
   snd (verify demo_engine (Some demo_message) None None demo_keyring [IdText ''ffff'']) =
     Inr \<lparr>data = Text ''hello'',
          signatures = [\<lparr>keyId = ''b0b0'', valid = Unknown, created = Some 1700000000,
                         fingerprint = None\<rparr>]\<rparr>"
proof -
  have d: "snd (decrypt demo_util demo_engine demo_message demo_keyring
                  (Address ''bob@example.org'') False [''a11ce''] demo_unlock None) =
     Inr \<lparr>data = Text ''hello'',
          signatures = [\<lparr>keyId = ''b0b0'', valid = Valid, created = Some 1700000000,
                         fingerprint = Some ''fingerprint-of-b0b0''\<rparr>]\<rparr>"
    by (simp add: decrypt_def io_simps snd_signingKeysFor flattenKeys_def mapSignatures_def
          mapSignature_def classify_def created_of_def demo_defs)
  have v: "snd (verify demo_engine (Some demo_message) None None demo_keyring [IdText ''ffff'']) =
     Inr \<lparr>data = Text ''hello'',
          signatures = [\<lparr>keyId = ''b0b0'', valid = Unknown, created = Some 1700000000,
                         fingerprint = None\<rparr>]\<rparr>"
    by (simp add: verify_def io_simps snd_resolveSigningKeys truthy_def mapSignatures_def
          mapSignature_def classify_def created_of_def no_signing_key_message_def demo_defs)
  have m: "mapSignatures [signature_by_bob True, signature_by_bob False] demo_keyring =
     [\<lparr>keyId = ''b0b0'', valid = Valid, created = Some 1700000000,
        fingerprint = Some ''fingerprint-of-b0b0''\<rparr>,
      \<lparr>keyId = ''b0b0'', valid = Unknown, created = Some 1700000000, fingerprint = None\<rparr>]"
    by (simp add: mapSignatures_def mapSignature_def classify_def created_of_def
          no_signing_key_message_def demo_defs)
  from fingerprint_only_when_known
         [of "[signature_by_bob True, signature_by_bob False]" demo_keyring
             demo_util demo_engine demo_message "Address ''bob@example.org''" False
             "[''a11ce'']" demo_unlock None
             demo_engine "Some demo_message" None None demo_keyring "[IdText ''ffff'']"]
  show ?thesis using d v m by simp
qed

section \<open>decrypt without a sender\<close>

lemma fst_decrypt:
  "fst (decrypt U E msg kr senderAddress selfSigned ids unlockKey format) =
     GetPrivateKeyByIds (IdList ids) #
     (case getPrivateKeyByIds kr (IdList ids) of
        Inl e \<Rightarrow> []
      | Inr locked \<Rightarrow>
          UnlockKey locked #
          (case unlockKey locked of
             Inl e \<Rightarrow> []
           | Inr k \<Rightarrow>
               fst (signingKeysFor kr (toArray senderAddress) selfSigned k) @
               (case snd (signingKeysFor kr (toArray senderAddress) selfSigned k) of
                  Inl e \<Rightarrow> []
                | Inr vks \<Rightarrow> [PgpDecrypt msg k vks format])))"
  by (simp add: decrypt_def io_simps split: sum.splits)

lemma snd_decrypt:
  "snd (decrypt U E msg kr senderAddress selfSigned ids unlockKey format) =
     (case getPrivateKeyByIds kr (IdList ids) of
        Inl e \<Rightarrow> Inl e
      | Inr locked \<Rightarrow>
          (case unlockKey locked of
             Inl e \<Rightarrow> Inl e
           | Inr k \<Rightarrow>
               (case snd (signingKeysFor kr (toArray senderAddress) selfSigned k) of
                  Inl e \<Rightarrow> Inl e
                | Inr vks \<Rightarrow>
                    (case pgpDecrypt E msg k vks format of
                       Inl e \<Rightarrow> Inl e
                     | Inr res \<Rightarrow>
                         Inr \<lparr>data = (if format = Some ''binary''
                                      then Text (Uint8Array2str U (data res)) else data res),
                              signatures = mapSignatures (signatures res) kr\<rparr>))))"
  by (simp add: decrypt_def io_simps split: sum.splits)

text \<open>
  C4, as amended. When the normalised sender address list is empty and \<open>selfSigned\<close> is
  not set, \<open>decrypt\<close> makes no lookup of signing keys by address and every call of the
  engine's decrypt has its verification keys \<open>undefined\<close>. The signatures returned are
  the mapping of the raw signatures that the engine reports for that call: the list is
  empty exactly when the engine reports none.
\<close>

theorem decrypt_without_sender:
  assumes "toArray senderAddress = []" and "\<not> selfSigned"
  shows "(\<forall>ev \<in> set (fst (decrypt U E msg kr senderAddress selfSigned ids unlockKey format)).
            \<not> is_address_lookup ev) \<and>
         (\<forall>m k vks fmt.
            PgpDecrypt m k vks fmt
              \<in> set (fst (decrypt U E msg kr senderAddress selfSigned ids unlockKey format)) \<longrightarrow>
            vks = None) \<and>
         (\<forall>r. snd (decrypt U E msg kr senderAddress selfSigned ids unlockKey format) = Inr r \<longrightarrow>
            (\<exists>k res. pgpDecrypt E msg k None format = Inr res \<and>
               signatures r = mapSignatures (signatures res) kr \<and>
               (signatures r = [] \<longleftrightarrow> signatures res = [])))"
proof -
  have s: "snd (signingKeysFor kr [] False k) = Inr None" for k
    by (simp add: snd_signingKeysFor)
  have f: "fst (signingKeysFor kr [] False k) = []" for k
    by (simp add: fst_signingKeysFor)
  have 1: "\<forall>ev \<in> set (fst (decrypt U E msg kr senderAddress selfSigned ids unlockKey format)).
            \<not> is_address_lookup ev"
    using assms by (auto simp: fst_decrypt s f split: sum.splits)
  have 2: "\<forall>m k vks fmt.
            PgpDecrypt m k vks fmt
              \<in> set (fst (decrypt U E msg kr senderAddress selfSigned ids unlockKey format)) \<longrightarrow>
            vks = None"
    using assms by (auto simp: fst_decrypt s f split: sum.splits)
  have 3: "\<exists>k res. pgpDecrypt E msg k None format = Inr res \<and>
               signatures r = mapSignatures (signatures res) kr \<and>
               (signatures r = [] \<longleftrightarrow> signatures res = [])"
    if "snd (decrypt U E msg kr senderAddress selfSigned ids unlockKey format) = Inr r" for r
  proof -
    from that assms obtain k res where
      "pgpDecrypt E msg k None format = Inr res"
      "r = \<lparr>data = (if format = Some ''binary'' then Text (Uint8Array2str U (data res))
                    else data res),
            signatures = mapSignatures (signatures res) kr\<rparr>"
      by (auto simp: snd_decrypt s split: sum.splits)
    then show ?thesis by (auto simp: mapSignatures_def)
  qed
  from 1 2 3 show ?thesis by blast
qed

text \<open>
  The claim as first stated has the returned \<open>signatures\<close> empty on every such call. An
  engine that reports the signature of a signed message also when it is given no
  verification keys, with a handle that rejects for want of the signing key, makes
  \<open>decrypt\<close> return one record, classified \<open>Unknown\<close>.
\<close>

theorem decrypt_without_sender_counterexample:
  "toArray NoAddress = [] \<and>
   decrypt demo_util demo_engine demo_message demo_keyring NoAddress False [''a11ce'']
       demo_unlock None =
     ([GetPrivateKeyByIds (IdList [''a11ce'']), UnlockKey (Key ''alice-locked''),
       PgpDecrypt demo_message (Key ''alice-unlocked'') None None],
      Inr \<lparr>data = Text ''hello'',
           signatures = [\<lparr>keyId = ''b0b0'', valid = Unknown, created = Some 1700000000,
                          fingerprint = None\<rparr>]\<rparr>)"
  by (simp add: prod_eq_iff fst_decrypt snd_decrypt fst_signingKeysFor snd_signingKeysFor
        mapSignatures_def mapSignature_def classify_def created_of_def
        no_signing_key_message_def demo_defs)

theorem decrypt_without_sender_witness:
  "toArray NoAddress = [] \<and>
   fst (decrypt demo_util demo_engine demo_message demo_keyring NoAddress False [''a11ce'']
          demo_unlock None) =
     [GetPrivateKeyByIds (IdList [''a11ce'']), UnlockKey (Key ''alice-locked''),
      PgpDecrypt demo_message (Key ''alice-unlocked'') None None] \<and>
   snd (decrypt demo_util demo_engine demo_message demo_keyring NoAddress False [''a11ce'']
          demo_unlock None) =
     Inr \<lparr>data = Text ''hello'',
          signatures = mapSignatures [signature_by_bob False] demo_keyring\<rparr>"
proof -
  have a: "toArray NoAddress = []" by simp
  have b: "\<not> False" by simp
  have t: "fst (decrypt demo_util demo_engine demo_message demo_keyring NoAddress False
                 [''a11ce''] demo_unlock None) =
     [GetPrivateKeyByIds (IdList [''a11ce'']), UnlockKey (Key ''alice-locked''),
      PgpDecrypt demo_message (Key ''alice-unlocked'') None None]"
    by (simp add: fst_decrypt fst_signingKeysFor snd_signingKeysFor demo_defs)
  have r: "snd (decrypt demo_util demo_engine demo_message demo_keyring NoAddress False
                 [''a11ce''] demo_unlock None) =
     Inr \<lparr>data = Text ''hello'',
          signatures = mapSignatures [signature_by_bob False] demo_keyring\<rparr>"
    by (simp add: snd_decrypt snd_signingKeysFor demo_defs)
  from decrypt_without_sender [OF a b, of demo_util demo_engine demo_message demo_keyring
         "[''a11ce'']" demo_unlock None]
  show ?thesis using t r by simp
qed

section \<open>encrypt and sign\<close>

lemma fst_unlockSigningKey:
  "fst (unlockSigningKey kr unlockKey fpr) =
     (if truthy fpr then
        GetPrivateKeyByIds (IdString (the fpr)) #
        (case getPrivateKeyByIds kr (IdString (the fpr)) of
           Inl e \<Rightarrow> []
         | Inr locked \<Rightarrow> [UnlockKey locked])
      else [])"
  by (simp add: unlockSigningKey_def io_simps split: sum.splits)

lemma snd_unlockSigningKey:
  "snd (unlockSigningKey kr unlockKey fpr) =
     (if truthy fpr then
        (case getPrivateKeyByIds kr (IdString (the fpr)) of
           Inl e \<Rightarrow> Inl e
         | Inr locked \<Rightarrow> (case unlockKey locked of Inl e \<Rightarrow> Inl e | Inr k \<Rightarrow> Inr (Some k)))
      else Inr None)"
  by (simp add: unlockSigningKey_def io_simps split: sum.splits)

lemma buildMessage_no_crypto:
  "ev \<in> set (fst (buildMessage U E dat dataURL filename)) \<Longrightarrow> \<not> is_crypto_call ev"
  by (auto simp: buildMessage_def io_simps split: sum.splits if_splits)

lemma unlockSigningKey_no_crypto:
  "ev \<in> set (fst (unlockSigningKey kr unlockKey fpr)) \<Longrightarrow> \<not> is_crypto_call ev"
  by (auto simp: fst_unlockSigningKey split: sum.splits if_splits)

lemma fst_encrypt:
  "fst (encrypt U E dat dataURL kr unlockKey fprs fpr filename armor) =
     fst (buildMessage U E dat dataURL filename) @
     (case snd (buildMessage U E dat dataURL filename) of
        Inl e \<Rightarrow> []
      | Inr m \<Rightarrow>
          fst (unlockSigningKey kr unlockKey fpr) @
          (case snd (unlockSigningKey kr unlockKey fpr) of
             Inl e \<Rightarrow> []
           | Inr sk \<Rightarrow>
               GetKeysByFprs fprs #
               (case getKeysByFprs kr fprs of
                  Inl e \<Rightarrow> []
                | Inr keys \<Rightarrow> [PgpEncrypt m keys sk (if armor then ''armored'' else ''binary'')])))"
  by (simp add: encrypt_def io_simps split: sum.splits)

lemma snd_encrypt:
  "snd (encrypt U E dat dataURL kr unlockKey fprs fpr filename armor) =
     (case snd (buildMessage U E dat dataURL filename) of
        Inl e \<Rightarrow> Inl e
      | Inr m \<Rightarrow>
          (case snd (unlockSigningKey kr unlockKey fpr) of
             Inl e \<Rightarrow> Inl e
           | Inr sk \<Rightarrow>
               (case getKeysByFprs kr fprs of
                  Inl e \<Rightarrow> Inl e
                | Inr keys \<Rightarrow>
                    (case pgpEncrypt E m keys sk (if armor then ''armored'' else ''binary'') of
                       Inl e \<Rightarrow> Inl e
                     | Inr res \<Rightarrow> Inr (if armor then res else Text (Uint8Array2str U res))))))"
  by (simp add: encrypt_def io_simps split: sum.splits)

lemma fst_sign:
  "fst (sign E dat kr unlockKey fpr) =
     CreateCleartextMessage dat #
     (case createCleartextMessage E dat of
        Inl e \<Rightarrow> []
      | Inr m \<Rightarrow>
          GetPrivateKeyByIds (IdString fpr) #
          (case getPrivateKeyByIds kr (IdString fpr) of
             Inl e \<Rightarrow> []
           | Inr locked \<Rightarrow>
               UnlockKey locked #
               (case unlockKey locked of Inl e \<Rightarrow> [] | Inr k \<Rightarrow> [PgpSign m [k]])))"
  by (simp add: sign_def io_simps split: sum.splits)

lemma snd_sign:
  "snd (sign E dat kr unlockKey fpr) =
     (case createCleartextMessage E dat of
        Inl e \<Rightarrow> Inl e
      | Inr m \<Rightarrow>
          (case getPrivateKeyByIds kr (IdString fpr) of
             Inl e \<Rightarrow> Inl e
           | Inr locked \<Rightarrow>
               (case unlockKey locked of Inl e \<Rightarrow> Inl e | Inr k \<Rightarrow> pgpSign E m [k])))"
  by (simp add: sign_def io_simps split: sum.splits)

lemma decrypt_aborts:
  assumes "isl (getPrivateKeyByIds kr (IdList ids)) \<or>
           (\<exists>locked. getPrivateKeyByIds kr (IdList ids) = Inr locked \<and> isl (unlockKey locked)) \<or>
           (toArray senderAddress \<noteq> [] \<and> isl (getKeyByAddress kr (toArray senderAddress)))"
  shows "isl (snd (decrypt U E msg kr senderAddress selfSigned ids unlockKey format)) \<and>
         (\<forall>ev \<in> set (fst (decrypt U E msg kr senderAddress selfSigned ids unlockKey format)).
            \<not> is_crypto_call ev)"
  using assms
  by (auto simp: fst_decrypt snd_decrypt fst_signingKeysFor snd_signingKeysFor isl_def
           split: sum.splits)

lemma encrypt_aborts:
  assumes "(truthy fpr \<and> isl (getPrivateKeyByIds kr (IdString (the fpr)))) \<or>
           (truthy fpr \<and>
            (\<exists>locked. getPrivateKeyByIds kr (IdString (the fpr)) = Inr locked \<and>
               isl (unlockKey locked))) \<or>
           isl (getKeysByFprs kr fprs)"
  shows "isl (snd (encrypt U E dat dataURL kr unlockKey fprs fpr filename armor)) \<and>
         (\<forall>ev \<in> set (fst (encrypt U E dat dataURL kr unlockKey fprs fpr filename armor)).
            \<not> is_crypto_call ev)"
proof -
  have r: "isl (snd (encrypt U E dat dataURL kr unlockKey fprs fpr filename armor))"
    using assms by (auto simp: snd_encrypt snd_unlockSigningKey isl_def split: sum.splits)
  have "\<not> is_crypto_call ev"
    if "ev \<in> set (fst (encrypt U E dat dataURL kr unlockKey fprs fpr filename armor))" for ev
    using that assms buildMessage_no_crypto [of ev U E dat dataURL filename]
      unlockSigningKey_no_crypto [of ev kr unlockKey fpr]
    by (auto simp: fst_encrypt snd_unlockSigningKey isl_def split: sum.splits if_splits)
  with r show ?thesis by blast
qed

lemma sign_aborts:
  assumes "isl (getPrivateKeyByIds kr (IdString fpr)) \<or>
           (\<exists>locked. getPrivateKeyByIds kr (IdString fpr) = Inr locked \<and> isl (unlockKey locked))"
  shows "isl (snd (sign E dat kr unlockKey fpr)) \<and>
         (\<forall>ev \<in> set (fst (sign E dat kr unlockKey fpr)). \<not> is_crypto_call ev)"
  using assms
  by (auto simp: fst_sign snd_sign isl_def split: sum.splits)

text \<open>
  C7. In \<open>decrypt\<close>, \<open>encrypt\<close> and \<open>sign\<close>, when a key resolution of the keyring or the
  unlock callback fails, the operation ends with an error and therefore returns no
  plaintext, ciphertext or signature, and its trace holds no call of the engine's
  decrypt, encrypt or sign. For \<open>decrypt\<close> the resolutions are that of the private key
  and, with sender addresses, that of the signing keys; for \<open>encrypt\<close> that of the
  signing key (made only when \<open>signingKeyFpr\<close> is truthy) and that of the recipient
  keys; for \<open>sign\<close> that of the signing key.
\<close>

theorem resolution_or_unlock_failure_aborts:
  "((isl (getPrivateKeyByIds kr (IdList ids)) \<or>
     (\<exists>locked. getPrivateKeyByIds kr (IdList ids) = Inr locked \<and> isl (unlockKey locked)) \<or>
     (toArray senderAddress \<noteq> [] \<and> isl (getKeyByAddress kr (toArray senderAddress)))) \<longrightarrow>
    isl (snd (decrypt U E msg kr senderAddress selfSigned ids unlockKey format)) \<and>
    (\<forall>ev \<in> set (fst (decrypt U E msg kr senderAddress selfSigned ids unlockKey format)).
       \<not> is_crypto_call ev)) \<and>
   (((truthy fpr \<and> isl (getPrivateKeyByIds kr (IdString (the fpr)))) \<or>
     (truthy fpr \<and>
      (\<exists>locked. getPrivateKeyByIds kr (IdString (the fpr)) = Inr locked \<and>
         isl (unlockKey locked))) \<or>
     isl (getKeysByFprs kr fprs)) \<longrightarrow>
    isl (snd (encrypt U E dat dataURL kr unlockKey fprs fpr filename armor)) \<and>
    (\<forall>ev \<in> set (fst (encrypt U E dat dataURL kr unlockKey fprs fpr filename armor)).
       \<not> is_crypto_call ev)) \<and>
   ((isl (getPrivateKeyByIds kr (IdString sfpr)) \<or>
     (\<exists>locked. getPrivateKeyByIds kr (IdString sfpr) = Inr locked \<and> isl (unlockKey locked))) \<longrightarrow>
    isl (snd (sign E plain kr unlockKey sfpr)) \<and>
    (\<forall>ev \<in> set (fst (sign E plain kr unlockKey sfpr)). \<not> is_crypto_call ev))"
  using decrypt_aborts [of kr ids unlockKey senderAddress U E msg selfSigned format]
    encrypt_aborts [of fpr kr unlockKey fprs U E dat dataURL filename armor]
    sign_aborts [of kr sfpr unlockKey E plain]
  by blast

theorem resolution_or_unlock_failure_aborts_witness:
  "getPrivateKeyByIds demo_keyring (IdList [''a11ce'']) = Inr (Key ''alice-locked'') \<and>
   isl (cancelled_unlock (Key ''alice-locked'')) \<and>
   decrypt demo_util demo_engine demo_message demo_keyring (Address ''bob@example.org'') False
       [''a11ce''] cancelled_unlock None =
     ([GetPrivateKeyByIds (IdList [''a11ce'']), UnlockKey (Key ''alice-locked'')],
      Inl UserCancelled) \<and>
   truthy (Some ''a11ce'') \<and>
   getPrivateKeyByIds demo_keyring (IdString ''a11ce'') = Inr (Key ''alice-locked'') \<and>
   encrypt demo_util demo_engine (Some ''hi'') None demo_keyring cancelled_unlock [''b0b0'']
       (Some ''a11ce'') None True =
     ([CreateMessage (Text ''hi'') None, GetPrivateKeyByIds (IdString ''a11ce''),
       UnlockKey (Key ''alice-locked'')],
      Inl UserCancelled) \<and>
   sign demo_engine ''hi'' demo_keyring cancelled_unlock ''a11ce'' =
     ([CreateCleartextMessage ''hi'', GetPrivateKeyByIds (IdString ''a11ce''),
       UnlockKey (Key ''alice-locked'')],
      Inl UserCancelled) \<and>
   isl (getPrivateKeyByIds keyring_without_private_key (IdList [''a11ce''])) \<and>
   decrypt demo_util demo_engine demo_message keyring_without_private_key NoAddress True
       [''a11ce''] demo_unlock None =
     ([GetPrivateKeyByIds (IdList [''a11ce''])], Inl NoKeyFound) \<and>
   isl (getPrivateKeyByIds keyring_without_private_key (IdString ''a11ce'')) \<and>
   sign demo_engine ''hi'' keyring_without_private_key demo_unlock ''a11ce'' =
     ([CreateCleartextMessage ''hi'', GetPrivateKeyByIds (IdString ''a11ce'')], Inl NoKeyFound)"
proof -
  have d': "decrypt demo_util demo_engine demo_message keyring_without_private_key NoAddress True
       [''a11ce''] demo_unlock None =
     ([GetPrivateKeyByIds (IdList [''a11ce''])], Inl NoKeyFound)"
    by (simp add: prod_eq_iff fst_decrypt snd_decrypt demo_defs)
  have s': "sign demo_engine ''hi'' keyring_without_private_key demo_unlock ''a11ce'' =
     ([CreateCleartextMessage ''hi'', GetPrivateKeyByIds (IdString ''a11ce'')], Inl NoKeyFound)"
    by (simp add: prod_eq_iff fst_sign snd_sign demo_defs)
  have h': "isl (getPrivateKeyByIds keyring_without_private_key (IdList [''a11ce''])) \<and>
            isl (getPrivateKeyByIds keyring_without_private_key (IdString ''a11ce''))"
    by (simp add: demo_defs)
  have d: "decrypt demo_util demo_engine demo_message demo_keyring (Address ''bob@example.org'')
       False [''a11ce''] cancelled_unlock None =
     ([GetPrivateKeyByIds (IdList [''a11ce'']), UnlockKey (Key ''alice-locked'')],
      Inl UserCancelled)"
    by (simp add: prod_eq_iff fst_decrypt snd_decrypt demo_defs)
  have e: "encrypt demo_util demo_engine (Some ''hi'') None demo_keyring cancelled_unlock
       [''b0b0''] (Some ''a11ce'') None True =
     ([CreateMessage (Text ''hi'') None, GetPrivateKeyByIds (IdString ''a11ce''),
       UnlockKey (Key ''alice-locked'')],
      Inl UserCancelled)"
    by (simp add: prod_eq_iff fst_encrypt snd_encrypt fst_unlockSigningKey snd_unlockSigningKey
          buildMessage_def io_simps truthy_def demo_defs)
  have s: "sign demo_engine ''hi'' demo_keyring cancelled_unlock ''a11ce'' =
     ([CreateCleartextMessage ''hi'', GetPrivateKeyByIds (IdString ''a11ce''),
       UnlockKey (Key ''alice-locked'')],
      Inl UserCancelled)"
    by (simp add: prod_eq_iff fst_sign snd_sign demo_defs)
  have h: "getPrivateKeyByIds demo_keyring (IdList [''a11ce'']) = Inr (Key ''alice-locked'') \<and>
           getPrivateKeyByIds demo_keyring (IdString ''a11ce'') = Inr (Key ''alice-locked'') \<and>
           isl (cancelled_unlock (Key ''alice-locked'')) \<and> truthy (Some ''a11ce'')"
    by (simp add: truthy_def demo_defs)
  from resolution_or_unlock_failure_aborts
         [of demo_keyring "[''a11ce'']" cancelled_unlock "Address ''bob@example.org''"
             demo_util demo_engine demo_message False None "Some ''a11ce''" "[''b0b0'']"
             "Some ''hi''" None None True "''a11ce''" "''hi''"]
       resolution_or_unlock_failure_aborts
         [of keyring_without_private_key "[''a11ce'']" demo_unlock NoAddress
             demo_util demo_engine demo_message True None None "[]"
             None None None True "''a11ce''" "''hi''"]
  show ?thesis using d e s h d' s' h' by simp
qed

section \<open>The recipient keys of encrypt\<close>

text \<open>
  C9, as amended. \<open>encrypt\<close> does not inspect the list of recipient keys. Once the
  message is built and the signing key, if any, is unlocked: when \<open>getKeysByFprs\<close>
  fails, \<open>encrypt\<close> fails with that error (\<open>NoKeyFound\<close> when the keyring reports it)
  and the engine's encrypt is not called; when \<open>getKeysByFprs\<close> returns a list, the
  empty list too, the engine's encrypt is called with exactly that list and \<open>encrypt\<close>
  returns the engine's outcome.
\<close>

theorem encrypt_recipient_keys:
  assumes "snd (buildMessage U E dat dataURL filename) = Inr m"
    and "snd (unlockSigningKey kr unlockKey fpr) = Inr sk"
  shows "(\<forall>e. getKeysByFprs kr fprs = Inl e \<longrightarrow>
            snd (encrypt U E dat dataURL kr unlockKey fprs fpr filename armor) = Inl e \<and>
            (\<forall>ev \<in> set (fst (encrypt U E dat dataURL kr unlockKey fprs fpr filename armor)).
               \<not> is_crypto_call ev)) \<and>
         (\<forall>keys. getKeysByFprs kr fprs = Inr keys \<longrightarrow>
            PgpEncrypt m keys sk (if armor then ''armored'' else ''binary'')
              \<in> set (fst (encrypt U E dat dataURL kr unlockKey fprs fpr filename armor)) \<and>
            snd (encrypt U E dat dataURL kr unlockKey fprs fpr filename armor) =
              (case pgpEncrypt E m keys sk (if armor then ''armored'' else ''binary'') of
                 Inl e \<Rightarrow> Inl e
               | Inr res \<Rightarrow> Inr (if armor then res else Text (Uint8Array2str U res))))"
proof -
  have 1: "snd (encrypt U E dat dataURL kr unlockKey fprs fpr filename armor) = Inl e \<and>
           (\<forall>ev \<in> set (fst (encrypt U E dat dataURL kr unlockKey fprs fpr filename armor)).
              \<not> is_crypto_call ev)"
    if "getKeysByFprs kr fprs = Inl e" for e
  proof -
    from that have "isl (getKeysByFprs kr fprs)" by simp
    then have "\<forall>ev \<in> set (fst (encrypt U E dat dataURL kr unlockKey fprs fpr filename armor)).
                 \<not> is_crypto_call ev"
      using encrypt_aborts [of fpr kr unlockKey fprs U E dat dataURL filename armor] by blast
    moreover have "snd (encrypt U E dat dataURL kr unlockKey fprs fpr filename armor) = Inl e"
      using assms that by (simp add: snd_encrypt)
    ultimately show ?thesis by blast
  qed
  have 2: "PgpEncrypt m keys sk (if armor then ''armored'' else ''binary'')
              \<in> set (fst (encrypt U E dat dataURL kr unlockKey fprs fpr filename armor)) \<and>
            snd (encrypt U E dat dataURL kr unlockKey fprs fpr filename armor) =
              (case pgpEncrypt E m keys sk (if armor then ''armored'' else ''binary'') of
                 Inl e \<Rightarrow> Inl e
               | Inr res \<Rightarrow> Inr (if armor then res else Text (Uint8Array2str U res)))"
    if "getKeysByFprs kr fprs = Inr keys" for keys
    using assms that by (simp add: fst_encrypt snd_encrypt)
  from 1 2 show ?thesis by blast
qed

text \<open>
  The claim as first stated has \<open>encrypt\<close> fail with \<open>NoKeyFound\<close> whenever the resolved
  list is empty. With no fingerprints the keyring resolves the empty list, the engine is
  called with zero recipients, and \<open>encrypt\<close> returns the engine's armored output.
\<close>

theorem encrypt_recipient_keys_counterexample:
  "getKeysByFprs demo_keyring [] = Inr [] \<and>
   encrypt demo_util demo_engine (Some ''hi'') None demo_keyring demo_unlock [] None None True =
     ([CreateMessage (Text ''hi'') None, GetKeysByFprs [],
       PgpEncrypt (Some (Message ''literal'')) [] None ''armored''],
      Inr (Text ''-----BEGIN PGP MESSAGE-----''))"
  by (simp add: prod_eq_iff fst_encrypt snd_encrypt fst_unlockSigningKey snd_unlockSigningKey
        buildMessage_def io_simps truthy_def demo_defs)

theorem encrypt_recipient_keys_witness:
  "snd (buildMessage demo_util demo_engine (Some ''hi'') None None) = Inr (Some (Message ''literal'')) \<and>
   snd (unlockSigningKey demo_keyring demo_unlock None) = Inr None \<and>
   getKeysByFprs demo_keyring [] = Inr [] \<and>
   PgpEncrypt (Some (Message ''literal'')) [] None ''binary''
     \<in> set (fst (encrypt demo_util demo_engine (Some ''hi'') None demo_keyring demo_unlock []
                   None None False)) \<and>
   snd (encrypt demo_util demo_engine (Some ''hi'') None demo_keyring demo_unlock []
          None None False) = Inr (Text (map char_of [193, 192 :: nat]))"
proof -
  have b: "snd (buildMessage demo_util demo_engine (Some ''hi'') None None) =
             Inr (Some (Message ''literal''))"
    by (simp add: buildMessage_def io_simps truthy_def demo_defs)
  have u: "snd (unlockSigningKey demo_keyring demo_unlock None) = Inr None"
    by (simp add: snd_unlockSigningKey truthy_def)
  have k: "getKeysByFprs demo_keyring [] = Inr []"
    by (simp add: demo_defs)
  from encrypt_recipient_keys [OF b u, of "[]" False] k b u
  show ?thesis by (simp add: demo_defs)
qed

section \<open>Resolving signing keys by sender address\<close>

lemma set_dedup: "set (dedup as) = set as"
  by (induction as rule: dedup.induct) auto

lemma distinct_dedup: "distinct (dedup as)"
  by (induction as rule: dedup.induct) (auto simp: set_dedup)

lemma dedup_distinct: "distinct as \<Longrightarrow> dedup as = as"
proof (induction as)
  case Nil
  then show ?case by simp
next
  case (Cons a as)
  then have "filter (\<lambda>b. b \<noteq> a) as = as"
    by (intro filter_True) auto
  with Cons show ?case by simp
qed

lemma distinct_toArray: "distinct (toArray senderAddress)"
  by (cases senderAddress) (simp_all add: distinct_dedup)

lemma foldl_append_keys:
  "foldl (\<lambda>result email. result @ f email) acc addrs = acc @ concat (map f addrs)"
  by (induction addrs arbitrary: acc) simp_all

lemma flattenKeys_concat:
  "flattenKeys found addrs =
     concat (map (\<lambda>email. case found email of None \<Rightarrow> [] | Some ks \<Rightarrow> ks) addrs)"
  by (simp add: flattenKeys_def foldl_append_keys)

text \<open>
  C8. The normalised sender address list has no duplicates and holds the addresses given
  (unchanged when they were distinct already); the keyring lookup by address is made
  with that list; the keys found are concatenated in the order of the addresses, an
  address without keys adding nothing; and a lookup that succeeds is never an error,
  also when it finds no key at all: \<open>decrypt\<close> goes on to the engine, with the keys
  found or, when there are none, with the unlocked decryption key.
\<close>

theorem sender_keys_resolution:
  "distinct (toArray senderAddress) \<and>
   (\<forall>as. senderAddress = Addresses as \<longrightarrow>
      set (toArray senderAddress) = set as \<and> (distinct as \<longrightarrow> toArray senderAddress = as)) \<and>
   (\<forall>addrs. GetKeyByAddress addrs
               \<in> set (fst (decrypt U E msg kr senderAddress selfSigned ids unlockKey format)) \<longrightarrow>
      addrs = toArray senderAddress \<and> addrs \<noteq> []) \<and>
   (\<forall>found addrs. flattenKeys found addrs =
      concat (map (\<lambda>email. case found email of None \<Rightarrow> [] | Some ks \<Rightarrow> ks) addrs)) \<and>
   (\<forall>locked k found.
      getPrivateKeyByIds kr (IdList ids) = Inr locked \<and> unlockKey locked = Inr k \<and>
      toArray senderAddress \<noteq> [] \<and> getKeyByAddress kr (toArray senderAddress) = Inr found \<longrightarrow>
      fst (decrypt U E msg kr senderAddress selfSigned ids unlockKey format) =
        [GetPrivateKeyByIds (IdList ids), UnlockKey locked, GetKeyByAddress (toArray senderAddress),
         PgpDecrypt msg k
           (Some (if flattenKeys found (toArray senderAddress) = [] then [k]
                  else flattenKeys found (toArray senderAddress))) format])"
proof -
  have 2: "set (toArray senderAddress) = set as \<and> (distinct as \<longrightarrow> toArray senderAddress = as)"
    if "senderAddress = Addresses as" for as
    using that by (simp add: set_dedup dedup_distinct)
  have 3: "addrs = toArray senderAddress \<and> addrs \<noteq> []"
    if "GetKeyByAddress addrs
          \<in> set (fst (decrypt U E msg kr senderAddress selfSigned ids unlockKey format))" for addrs
    using that by (auto simp: fst_decrypt fst_signingKeysFor split: sum.splits if_splits)
  have 5: "fst (decrypt U E msg kr senderAddress selfSigned ids unlockKey format) =
        [GetPrivateKeyByIds (IdList ids), UnlockKey locked, GetKeyByAddress (toArray senderAddress),
         PgpDecrypt msg k
           (Some (if flattenKeys found (toArray senderAddress) = [] then [k]
                  else flattenKeys found (toArray senderAddress))) format]"
    if "getPrivateKeyByIds kr (IdList ids) = Inr locked" "unlockKey locked = Inr k"
      "toArray senderAddress \<noteq> []" "getKeyByAddress kr (toArray senderAddress) = Inr found"
    for locked k found
    using that by (simp add: fst_decrypt fst_signingKeysFor snd_signingKeysFor)
  from 2 3 5 distinct_toArray [of senderAddress] flattenKeys_concat show ?thesis
    by blast
qed

theorem sender_keys_resolution_witness:
  "toArray (Addresses [''carol@example.org'', ''bob@example.org'', ''carol@example.org'']) =
     [''carol@example.org'', ''bob@example.org''] \<and>
   decrypt demo_util demo_engine demo_message demo_keyring
       (Addresses [''carol@example.org'', ''bob@example.org'', ''carol@example.org'']) False
       [''a11ce''] demo_unlock None =
     ([GetPrivateKeyByIds (IdList [''a11ce'']), UnlockKey (Key ''alice-locked''),
       GetKeyByAddress [''carol@example.org'', ''bob@example.org''],
       PgpDecrypt demo_message (Key ''alice-unlocked'') (Some [Key ''bob-1'', Key ''bob-2'']) None],
      Inr \<lparr>data = Text ''hello'',
           signatures = [\<lparr>keyId = ''b0b0'', valid = Valid, created = Some 1700000000,
                          fingerprint = Some ''fingerprint-of-b0b0''\<rparr>]\<rparr>) \<and>
   fst (decrypt demo_util demo_engine demo_message demo_keyring (Address ''carol@example.org'')
          False [''a11ce''] demo_unlock None) =
     [GetPrivateKeyByIds (IdList [''a11ce'']), UnlockKey (Key ''alice-locked''),
      GetKeyByAddress [''carol@example.org''],
      PgpDecrypt demo_message (Key ''alice-unlocked'') (Some [Key ''alice-unlocked'']) None]"
proof -
  have t: "toArray (Addresses [''carol@example.org'', ''bob@example.org'', ''carol@example.org'']) =
     [''carol@example.org'', ''bob@example.org'']"
    by simp
  have d: "decrypt demo_util demo_engine demo_message demo_keyring
       (Addresses [''carol@example.org'', ''bob@example.org'', ''carol@example.org'']) False
       [''a11ce''] demo_unlock None =
     ([GetPrivateKeyByIds (IdList [''a11ce'']), UnlockKey (Key ''alice-locked''),
       GetKeyByAddress [''carol@example.org'', ''bob@example.org''],
       PgpDecrypt demo_message (Key ''alice-unlocked'') (Some [Key ''bob-1'', Key ''bob-2'']) None],
      Inr \<lparr>data = Text ''hello'',
           signatures = [\<lparr>keyId = ''b0b0'', valid = Valid, created = Some 1700000000,
                          fingerprint = Some ''fingerprint-of-b0b0''\<rparr>]\<rparr>)"
    by (simp add: prod_eq_iff fst_decrypt snd_decrypt fst_signingKeysFor snd_signingKeysFor
          flattenKeys_def mapSignatures_def mapSignature_def classify_def created_of_def
          demo_defs)
  have c: "fst (decrypt demo_util demo_engine demo_message demo_keyring
                  (Address ''carol@example.org'') False [''a11ce''] demo_unlock None) =
     [GetPrivateKeyByIds (IdList [''a11ce'']), UnlockKey (Key ''alice-locked''),
      GetKeyByAddress [''carol@example.org''],
      PgpDecrypt demo_message (Key ''alice-unlocked'') (Some [Key ''alice-unlocked'']) None]"
    by (simp add: fst_decrypt fst_signingKeysFor snd_signingKeysFor flattenKeys_def demo_defs)
  from sender_keys_resolution
         [of "Addresses [''carol@example.org'', ''bob@example.org'', ''carol@example.org'']"
             demo_util demo_engine demo_message demo_keyring False "[''a11ce'']" demo_unlock None]
       sender_keys_resolution
         [of "Address ''carol@example.org''"
             demo_util demo_engine demo_message demo_keyring False "[''a11ce'']" demo_unlock None]
  show ?thesis using t d c by simp
qed

section \<open>The verification keys of verify\<close>

lemma pushFirstKeys_concat:
  "pushFirstKeys kr ids acc =
     acc @ concat (map (\<lambda>kid. case getKeysForId kr (lookup_id kid) True of
                                None \<Rightarrow> []
                              | Some [] \<Rightarrow> [None]
                              | Some (k # rest) \<Rightarrow> [Some k]) ids)"
  by (induction ids arbitrary: acc) (auto split: option.splits list.splits)

lemma length_concat_le:
  "(\<And>x. x \<in> set xs \<Longrightarrow> length (f x) \<le> 1) \<Longrightarrow> length (concat (map f xs)) \<le> length xs"
proof (induction xs)
  case Nil
  then show ?case by simp
next
  case (Cons x xs)
  have "length (f x) \<le> 1" by (rule Cons.prems) simp
  moreover have "length (concat (map f xs)) \<le> length xs"
  proof (rule Cons.IH)
    fix y assume "y \<in> set xs"
    then have "y \<in> set (x # xs)" by simp
    then show "length (f y) \<le> 1" by (rule Cons.prems)
  qed
  ultimately show ?case by simp
qed

lemma PgpVerify_in_trace:
  assumes "PgpVerify m vks sg \<in> set (fst (verify E msg plaintext detachedSignature kr ids))"
  shows "vks = pushFirstKeys kr ids []"
  using assms
  by (auto simp: verify_def io_simps fst_resolveSigningKeys snd_resolveSigningKeys
           split: sum.splits if_splits)

text \<open>
  C10. The verification keys that \<open>verify\<close> hands to the engine are, for each identifier
  of \<open>signingKeyIds\<close> in order, nothing when the keystore returns no keys for it, and
  otherwise one entry: the first of the keys returned, the further keys being dropped
  (\<open>undefined\<close> when the array returned is empty). There is at most one entry per
  identifier.
\<close>

theorem verify_first_key_only:
  assumes "PgpVerify m vks sg \<in> set (fst (verify E msg plaintext detachedSignature kr ids))"
  shows "vks = concat (map (\<lambda>kid. case getKeysForId kr (lookup_id kid) True of
                                    None \<Rightarrow> []
                                  | Some [] \<Rightarrow> [None]
                                  | Some (k # rest) \<Rightarrow> [Some k]) ids) \<and>
         length vks \<le> length ids"
proof -
  have "vks = pushFirstKeys kr ids []"
    using assms by (rule PgpVerify_in_trace)
  then have eq: "vks = concat (map (\<lambda>kid. case getKeysForId kr (lookup_id kid) True of
                                    None \<Rightarrow> []
                                  | Some [] \<Rightarrow> [None]
                                  | Some (k # rest) \<Rightarrow> [Some k]) ids)"
    by (simp add: pushFirstKeys_concat)
  have "length (concat (map (\<lambda>kid. case getKeysForId kr (lookup_id kid) True of
                                    None \<Rightarrow> []
                                  | Some [] \<Rightarrow> [None]
                                  | Some (k # rest) \<Rightarrow> [Some k]) ids)) \<le> length ids"
    by (rule length_concat_le) (simp split: option.splits list.splits)
  with eq show ?thesis by simp
qed

theorem verify_first_key_only_witness:
  "getKeysForId demo_keyring ''b0b0'' True = Some [Key ''bob-1'', Key ''bob-2''] \<and>
   getKeysForId demo_keyring ''ffff'' True = None \<and>
   verify demo_engine (Some demo_message) None None demo_keyring
       [KeyIDObject ''ffff'', IdText ''b0b0''] =
     ([GetKeysForId ''ffff'' True, GetKeysForId ''b0b0'' True,
       PgpVerify (Some demo_message) [Some (Key ''bob-1'')] None],
      Inr \<lparr>data = Text ''hello'',
           signatures = [\<lparr>keyId = ''b0b0'', valid = Valid, created = Some 1700000000,
                          fingerprint = Some ''fingerprint-of-b0b0''\<rparr>]\<rparr>)"
proof -
  have v: "verify demo_engine (Some demo_message) None None demo_keyring
       [KeyIDObject ''ffff'', IdText ''b0b0''] =
     ([GetKeysForId ''ffff'' True, GetKeysForId ''b0b0'' True,
       PgpVerify (Some demo_message) [Some (Key ''bob-1'')] None],
      Inr \<lparr>data = Text ''hello'',
           signatures = [\<lparr>keyId = ''b0b0'', valid = Valid, created = Some 1700000000,
                          fingerprint = Some ''fingerprint-of-b0b0''\<rparr>]\<rparr>)"
    by (simp add: prod_eq_iff verify_def io_simps fst_resolveSigningKeys snd_resolveSigningKeys
          truthy_def mapSignatures_def mapSignature_def classify_def created_of_def demo_defs)
  then have ev: "PgpVerify (Some demo_message) [Some (Key ''bob-1'')] None
      \<in> set (fst (verify demo_engine (Some demo_message) None None demo_keyring
                    [KeyIDObject ''ffff'', IdText ''b0b0'']))"
    by simp
  from verify_first_key_only [OF ev] show ?thesis
    using v by (simp add: demo_defs)
qed

section \<open>A failed fingerprint lookup\<close>

text \<open>
  C2. If the signature at position \<open>i\<close> is not classified \<open>Unknown\<close> and the fingerprint
  lookup for its key id fails, then its record has \<open>valid = Invalid\<close> and no
  fingerprint, \<open>mapSignatures\<close> still returns one record per signature, each the mapping
  of its own signature, and \<open>decrypt\<close> and \<open>verify\<close> return the engine's data with these
  records instead of an error.
\<close>

theorem fingerprint_lookup_failure_absorbed:
  assumes "i < length sigs"
    and "classify (verified (sigs ! i)) \<noteq> Unknown"
    and "getFprForKeyId kr (keyID (sigs ! i)) = Inl e"
  shows "length (mapSignatures sigs kr) = length sigs \<and>
         valid (mapSignatures sigs kr ! i) = Invalid \<and>
         fingerprint (mapSignatures sigs kr ! i) = None \<and>
         (\<forall>j < length sigs. mapSignatures sigs kr ! j = mapSignature kr (sigs ! j)) \<and>
         (\<forall>m k vks fmt res.
            PgpDecrypt m k vks fmt
              \<in> set (fst (decrypt U E msg kr senderAddress selfSigned ids unlockKey format)) \<and>
            pgpDecrypt E m k vks fmt = Inr res \<and> signatures res = sigs \<longrightarrow>
            snd (decrypt U E msg kr senderAddress selfSigned ids unlockKey format) =
              Inr \<lparr>data = (if format = Some ''binary'' then Text (Uint8Array2str U (data res))
                           else data res),
                   signatures = mapSignatures sigs kr\<rparr>) \<and>
         (\<forall>m vks sg res.
            PgpVerify m vks sg
              \<in> set (fst (verify E' msg' plaintext detachedSignature kr signingKeyIds)) \<and>
            pgpVerify E' m vks sg = Inr res \<and> signatures res = sigs \<longrightarrow>
            snd (verify E' msg' plaintext detachedSignature kr signingKeyIds) =
              Inr \<lparr>data = data res, signatures = mapSignatures sigs kr\<rparr>)"
proof -
  have v: "valid (mapSignature kr (sigs ! i)) = Invalid"
    using assms(2,3) by (simp add: valid_mapSignature split: trust.splits)
  have f: "fingerprint (mapSignature kr (sigs ! i)) = None"
    using assms(3) by (simp add: fingerprint_mapSignature)
  have n: "\<forall>j < length sigs. mapSignatures sigs kr ! j = mapSignature kr (sigs ! j)"
    by (simp add: mapSignatures_def)
  have d: "snd (decrypt U E msg kr senderAddress selfSigned ids unlockKey format) =
              Inr \<lparr>data = (if format = Some ''binary'' then Text (Uint8Array2str U (data res))
                           else data res),
                   signatures = mapSignatures sigs kr\<rparr>"
    if "PgpDecrypt m k vks fmt
          \<in> set (fst (decrypt U E msg kr senderAddress selfSigned ids unlockKey format))"
      "pgpDecrypt E m k vks fmt = Inr res" "signatures res = sigs" for m k vks fmt res
    using snd_decrypt_engine [OF that(1)] that(2,3) by simp
  have w: "snd (verify E' msg' plaintext detachedSignature kr signingKeyIds) =
              Inr \<lparr>data = data res, signatures = mapSignatures sigs kr\<rparr>"
    if "PgpVerify m vks sg
          \<in> set (fst (verify E' msg' plaintext detachedSignature kr signingKeyIds))"
      "pgpVerify E' m vks sg = Inr res" "signatures res = sigs" for m vks sg res
    using snd_verify_engine [OF that(1)] that(2,3) by simp
  have l: "length (mapSignatures sigs kr) = length sigs"
    by (simp add: mapSignatures_def)
  from v f n assms(1) have vi: "valid (mapSignatures sigs kr ! i) = Invalid"
    and fi: "fingerprint (mapSignatures sigs kr ! i) = None"
    by simp_all
  from l vi fi n d w show ?thesis by blast
qed

theorem fingerprint_lookup_failure_absorbed_witness:
  "classify (verified ([signature_by_bob True, signature_by_bob False] ! 0)) = Valid \<and>
   getFprForKeyId keyring_without_fingerprints
       (keyID ([signature_by_bob True, signature_by_bob False] ! 0)) =
     Inl FingerprintLookupFailed \<and>
   mapSignatures [signature_by_bob True, signature_by_bob False] keyring_without_fingerprints =
     [\<lparr>keyId = ''b0b0'', valid = Invalid, created = Some 1700000000, fingerprint = None\<rparr>,
      \<lparr>keyId = ''b0b0'', valid = Unknown, created = Some 1700000000, fingerprint = None\<rparr>] \<and>
   decrypt demo_util demo_engine demo_message keyring_without_fingerprints
       (Address ''bob@example.org'') False [''a11ce''] demo_unlock None =
     ([GetPrivateKeyByIds (IdList [''a11ce'']), UnlockKey (Key ''alice-locked''),
       GetKeyByAddress [''bob@example.org''],
       PgpDecrypt demo_message (Key ''alice-unlocked'') (Some [Key ''bob-1'', Key ''bob-2'']) None],
      Inr \<lparr>data = Text ''hello'',
           signatures = [\<lparr>keyId = ''b0b0'', valid = Invalid, created = Some 1700000000,
                          fingerprint = None\<rparr>]\<rparr>) \<and>
   verify demo_engine (Some demo_message) None None keyring_without_fingerprints
       [IdText ''b0b0''] =
     ([GetKeysForId ''b0b0'' True, PgpVerify (Some demo_message) [Some (Key ''bob-1'')] None],
      Inr \<lparr>data = Text ''hello'',
           signatures = [\<lparr>keyId = ''b0b0'', valid = Invalid, created = Some 1700000000,
                          fingerprint = None\<rparr>]\<rparr>)"
proof -
  have i: "(0::nat) < length [signature_by_bob True, signature_by_bob False]"
    by simp
  have c: "classify (verified ([signature_by_bob True, signature_by_bob False] ! 0)) \<noteq> Unknown"
    by (simp add: classify_def demo_defs)
  have c': "classify (verified ([signature_by_bob True, signature_by_bob False] ! 0)) = Valid"
    by (simp add: classify_def demo_defs)
  have g: "getFprForKeyId keyring_without_fingerprints
       (keyID ([signature_by_bob True, signature_by_bob False] ! 0)) =
     Inl FingerprintLookupFailed"
    by (simp add: demo_defs)
  have m: "mapSignatures [signature_by_bob True, signature_by_bob False]
             keyring_without_fingerprints =
     [\<lparr>keyId = ''b0b0'', valid = Invalid, created = Some 1700000000, fingerprint = None\<rparr>,
      \<lparr>keyId = ''b0b0'', valid = Unknown, created = Some 1700000000, fingerprint = None\<rparr>]"
    by (simp add: mapSignatures_def mapSignature_def classify_def created_of_def
          no_signing_key_message_def demo_defs)
  have d: "decrypt demo_util demo_engine demo_message keyring_without_fingerprints
       (Address ''bob@example.org'') False [''a11ce''] demo_unlock None =
     ([GetPrivateKeyByIds (IdList [''a11ce'']), UnlockKey (Key ''alice-locked''),
       GetKeyByAddress [''bob@example.org''],
       PgpDecrypt demo_message (Key ''alice-unlocked'') (Some [Key ''bob-1'', Key ''bob-2'']) None],
      Inr \<lparr>data = Text ''hello'',
           signatures = [\<lparr>keyId = ''b0b0'', valid = Invalid, created = Some 1700000000,
                          fingerprint = None\<rparr>]\<rparr>)"
    by (simp add: prod_eq_iff fst_decrypt snd_decrypt fst_signingKeysFor snd_signingKeysFor
          flattenKeys_def mapSignatures_def mapSignature_def classify_def created_of_def
          demo_defs)
  have v: "verify demo_engine (Some demo_message) None None keyring_without_fingerprints
       [IdText ''b0b0''] =
     ([GetKeysForId ''b0b0'' True, PgpVerify (Some demo_message) [Some (Key ''bob-1'')] None],
      Inr \<lparr>data = Text ''hello'',
           signatures = [\<lparr>keyId = ''b0b0'', valid = Invalid, created = Some 1700000000,
                          fingerprint = None\<rparr>]\<rparr>)"
    by (simp add: prod_eq_iff verify_def io_simps fst_resolveSigningKeys snd_resolveSigningKeys
          truthy_def mapSignatures_def mapSignature_def classify_def created_of_def demo_defs)
  from fingerprint_lookup_failure_absorbed [OF i c g, of demo_util demo_engine demo_message
         "Address ''bob@example.org''" False "[''a11ce'']" demo_unlock None
         demo_engine "Some demo_message" None None "[IdText ''b0b0'']"]
  show ?thesis using c' g m d v by simp
qed

section \<open>Promise.all and the order of completion\<close>

lemma length_settle: "length (settle tasks slots order) = length slots"
  by (induction order arbitrary: slots) auto

lemma nth_settle:
  "length slots = length tasks \<Longrightarrow> j < length tasks \<Longrightarrow>
   settle tasks slots order ! j = (if j \<in> set order then Some (tasks ! j) else slots ! j)"
proof (induction order arbitrary: slots)
  case Nil
  then show ?case by simp
next
  case (Cons i order)
  show ?case
  proof (cases "i < length tasks")
    case True
    with Cons.prems have "settle tasks (slots[i := Some (tasks ! i)]) order ! j =
        (if j \<in> set order then Some (tasks ! j) else slots[i := Some (tasks ! i)] ! j)"
      by (intro Cons.IH) simp_all
    with True Cons.prems show ?thesis
      by (auto simp: nth_list_update)
  next
    case False
    with Cons.prems Cons.IH [of slots] show ?thesis by auto
  qed
qed

lemma settle_all:
  assumes "{0..<length tasks} \<subseteq> set order"
  shows "settle tasks (replicate (length tasks) None) order = map Some tasks"
proof (rule nth_equalityI)
  show "length (settle tasks (replicate (length tasks) None) order) = length (map Some tasks)"
    by (simp add: length_settle)
next
  fix j assume "j < length (settle tasks (replicate (length tasks) None) order)"
  then have j: "j < length tasks" by (simp add: length_settle)
  with assms have "j \<in> set order" by auto
  with j show "settle tasks (replicate (length tasks) None) order ! j = map Some tasks ! j"
    by (simp add: nth_settle)
qed

lemma collect_slots_map_Some: "collect_slots (map Some vs) = Some vs"
  by (induction vs) auto

lemma Promise_all_complete:
  assumes "{0..<length tasks} \<subseteq> set order"
  shows "Promise_all order tasks = Some tasks"
  by (simp add: Promise_all_def settle_all [OF assms] collect_slots_map_Some)

text \<open>
  C6. Whatever the order in which the per-signature tasks complete (any arrangement
  \<open>order\<close> of the indices of the input), \<open>mapSignatures\<close> fulfils with one record per
  input signature, in input order; the record at position \<open>i\<close> is the mapping of the
  signature at position \<open>i\<close> alone, so what happens while mapping one signature does not
  affect the others.
\<close>

theorem mapSignatures_order_independent:
  assumes "mset order = mset [0..<length sigs]"
  shows "mapSignatures_async order sigs kr = Some (mapSignatures sigs kr) \<and>
         length (mapSignatures sigs kr) = length sigs \<and>
         (\<forall>i < length sigs. mapSignatures sigs kr ! i = mapSignature kr (sigs ! i))"
proof -
  from assms have "set order = set [0..<length sigs]"
    by (rule mset_eq_setD)
  then have "{0..<length (map (mapSignature kr) sigs)} \<subseteq> set order"
    by simp
  then have "Promise_all order (map (mapSignature kr) sigs) = Some (map (mapSignature kr) sigs)"
    by (rule Promise_all_complete)
  then show ?thesis
    by (simp add: mapSignatures_async_def mapSignatures_def)
qed

theorem mapSignatures_order_independent_witness:
  "mset [2, 0, 1] = mset [0..<length [signature_by_bob True, tampered_signature, signature_by_bob False]] \<and>
   mapSignatures_async [2, 0, 1] [signature_by_bob True, tampered_signature, signature_by_bob False]
       keyring_without_fingerprints =
     Some [\<lparr>keyId = ''b0b0'', valid = Invalid, created = Some 1700000000, fingerprint = None\<rparr>,
           \<lparr>keyId = ''b0b0'', valid = Invalid, created = None, fingerprint = None\<rparr>,
           \<lparr>keyId = ''b0b0'', valid = Unknown, created = Some 1700000000, fingerprint = None\<rparr>]"
proof -
  have h: "mset [2, 0, 1] =
           mset [0..<length [signature_by_bob True, tampered_signature, signature_by_bob False]]"
    by (simp add: upt_rec)
  have m: "mapSignatures [signature_by_bob True, tampered_signature, signature_by_bob False]
             keyring_without_fingerprints =
     [\<lparr>keyId = ''b0b0'', valid = Invalid, created = Some 1700000000, fingerprint = None\<rparr>,
      \<lparr>keyId = ''b0b0'', valid = Invalid, created = None, fingerprint = None\<rparr>,
      \<lparr>keyId = ''b0b0'', valid = Unknown, created = Some 1700000000, fingerprint = None\<rparr>]"
    by (simp add: mapSignatures_def mapSignature_def classify_def created_of_def
          no_signing_key_message_def demo_defs)
  from mapSignatures_order_independent [OF h, of keyring_without_fingerprints]
  show ?thesis using h m by simp
qed

end
